theory Spec2Isabelle
  imports Complex_Main "HOL-Library.Multiset"
begin

section \<open>JavaScript values used by the web client\<close>

text \<open>
  Strings are lists of 8-bit code units. The white space of ECMAScript in that range
  (WhiteSpace and LineTerminator: TAB, LF, VT, FF, CR, SP, NBSP) is what
  \<^verbatim>\<open>String.prototype.trim\<close> removes and what \<^verbatim>\<open>parseInt\<close> and
  \<^verbatim>\<open>parseFloat\<close> skip.
\<close>

definition is_js_space :: "char \<Rightarrow> bool" where
  "is_js_space c = (of_char c \<in> set [9, 10, 11, 12, 13, 32, 160 :: nat])"

definition trim :: "string \<Rightarrow> string" where
  "trim s = rev (dropWhile is_js_space (rev (dropWhile is_js_space s)))"

text \<open>The character of a digit below 16 (lower case, as JSON.stringify and toString print).\<close>

definition digit_char :: "nat \<Rightarrow> char" where
  "digit_char d = ''0123456789abcdef'' ! d"

text \<open>\<^verbatim>\<open>Number.prototype.toString\<close> on a non-negative integer: its decimal digits.\<close>

function show_nat :: "nat \<Rightarrow> string" where
  "show_nat n = (if n < 10 then [digit_char n] else show_nat (n div 10) @ [digit_char (n mod 10)])"
  by pat_completeness auto
termination
  by (relation "measure id") auto

declare show_nat.simps [simp del]

definition show_int :: "int \<Rightarrow> string" where
  "show_int i = (if i < 0 then CHR ''-'' # show_nat (nat (- i)) else show_nat (nat i))"

subsection \<open>Numbers\<close>

text \<open>
  The clock readings and the evidence limit are integers, kept exact (they stay far below
  \<open>2^53\<close>). An amount that goes through \<^verbatim>\<open>parseFloat\<close> is a binary64 value, modelled
  bit for bit by its sign, significand and exponent.
\<close>

definition is_digit :: "char \<Rightarrow> bool" where
  "is_digit c = (48 \<le> (of_char c :: nat) \<and> (of_char c :: nat) \<le> 57)"


definition digit_val :: "char \<Rightarrow> nat" where
  "digit_val c =
     (let n = (of_char c :: nat) in if n \<le> 57 then n - 48 else if n \<le> 70 then n - 55 else n - 87)"

definition digits_val :: "nat \<Rightarrow> string \<Rightarrow> nat" where
  "digits_val radix ds = foldl (\<lambda>acc c. radix * acc + digit_val c) 0 ds"

text \<open>An optional sign in front of a numeric text: whether it is negative, and the rest.\<close>

fun strip_sign :: "string \<Rightarrow> bool \<times> string" where
  "strip_sign [] = (False, [])"
| "strip_sign (c # cs) =
     (if c = CHR ''-'' then (True, cs) else if c = CHR ''+'' then (False, cs) else (False, c # cs))"


text \<open>
  A Number: NaN, an infinity with its sign, or the finite binary64 value
  \<open>\<plusminus> m * 2^e\<close> given by its sign (True: negative), \<open>m\<close> and \<open>e\<close>.
\<close>

datatype js_number = NaN | Infinity bool | Finite bool nat int

function bitlen :: "nat \<Rightarrow> nat" where
  "bitlen n = (if n = 0 then 0 else Suc (bitlen (n div 2)))"
  by pat_completeness auto
termination
  by (relation "measure id") auto

declare bitlen.simps [simp del]

text \<open>The integer part of the binary logarithm of \<open>p / q\<close>, for positive \<open>p\<close> and \<open>q\<close>.\<close>

definition floor_log2 :: "nat \<Rightarrow> nat \<Rightarrow> int" where
  "floor_log2 p q =
     (let d = int (bitlen p) - int (bitlen q) in
      if (if 0 \<le> d then q * 2 ^ nat d \<le> p else q \<le> p * 2 ^ nat (- d)) then d else d - 1)"

definition round_half_even_div :: "nat \<Rightarrow> nat \<Rightarrow> nat" where
  "round_half_even_div a b =
     (let f = a div b; r = a mod b in
      if 2 * r < b then f else if b < 2 * r then f + 1 else if even f then f else f + 1)"

text \<open>
  The Number value for the rational \<open>p / q\<close>: the nearest binary64 value, ties to the
  even significand; 53 bits of significand, exponents from \<open>-1074\<close> (subnormal) to
  \<open>971\<close>, beyond which the value is an infinity.
\<close>

definition round64 :: "bool \<Rightarrow> nat \<Rightarrow> nat \<Rightarrow> js_number" where
  "round64 neg p q =
     (if p = 0 then Finite neg 0 0
      else let e = max (floor_log2 p q - 52) (- 1074);
               m = (if 0 \<le> e then round_half_even_div p (q * 2 ^ nat e)
                    else round_half_even_div (p * 2 ^ nat (- e)) q);
               (m', e') = (if m = 2 ^ 53 then (2 ^ 52, e + 1) else (m, e))
           in if m = 0 then Finite neg 0 0 else if 971 < e' then Infinity neg else Finite neg m' e')"

text \<open>The exponent part of a decimal literal (\<^verbatim>\<open>e\<close>, a sign, digits), 0 when there is none.\<close>

definition exponent_part :: "string \<Rightarrow> int" where
  "exponent_part r =
     (case r of
        [] \<Rightarrow> 0
      | c # t \<Rightarrow>
          if c = CHR ''e'' \<or> c = CHR ''E'' then
            (let (eneg, t') = strip_sign t; ds = takeWhile is_digit t'
             in if ds = [] then 0 else if eneg then - int (digits_val 10 ds) else int (digits_val 10 ds))
          else 0)"

text \<open>
  \<^verbatim>\<open>parseFloat(text)\<close>: leading white space is skipped and the longest prefix that is a
  decimal literal (StrDecimalLiteral) is read; NaN when there is none.
\<close>

definition parseFloat :: "string \<Rightarrow> js_number" where
  "parseFloat s =
     (let (neg, s2) = strip_sign (dropWhile is_js_space s) in
      if take 8 s2 = ''Infinity'' then Infinity neg
      else
        let ip = takeWhile is_digit s2;
            r1 = dropWhile is_digit s2;
            (fp, r2) = (case r1 of
                          [] \<Rightarrow> ([], r1)
                        | c # t \<Rightarrow> if c = CHR ''.'' then (takeWhile is_digit t, dropWhile is_digit t)
                                   else ([], r1))
        in if ip = [] \<and> fp = [] then NaN
           else
             let x = exponent_part r2 - int (length fp);
                 n = digits_val 10 (ip @ fp)
             in if 0 \<le> x then round64 neg (n * 10 ^ nat x) 1 else round64 neg n (10 ^ nat (- x)))"

text \<open>
  \<^verbatim>\<open>Number.prototype.toString\<close> of a finite \<open>x = m * 2^e\<close> with \<open>10^21 \<le> x\<close>: the
  shortest digits \<open>s\<close> (\<open>k\<close> of them) and exponent \<open>n\<close> with \<open>s * 10^(n - k)\<close> rounding to
  \<open>x\<close>, the nearest to \<open>x\<close> among those (the even one of two), in exponential notation.
\<close>

definition shortest_candidates :: "nat \<Rightarrow> int \<Rightarrow> nat \<Rightarrow> (nat \<times> nat \<times> nat) list" where
  "shortest_candidates m e k =
     (let x = m * 2 ^ nat e; d = length (show_nat x) in
      [(s, k, n). n \<leftarrow> [d, d + 1], s \<leftarrow> [x div 10 ^ (n - k), x div 10 ^ (n - k) + 1],
         10 ^ (k - 1) \<le> s \<and> s < 10 ^ k \<and> round64 False (s * 10 ^ (n - k)) 1 = Finite False m e])"

definition candidate_distance :: "nat \<Rightarrow> nat \<times> nat \<times> nat \<Rightarrow> nat" where
  "candidate_distance x c = (case c of (s, k, n) \<Rightarrow> nat \<bar>int (s * 10 ^ (n - k)) - int x\<bar>)"

fun nearest_candidate :: "nat \<Rightarrow> (nat \<times> nat \<times> nat) list \<Rightarrow> (nat \<times> nat \<times> nat) option" where
  "nearest_candidate x [] = None"
| "nearest_candidate x (c # cs) =
     (case nearest_candidate x cs of
        None \<Rightarrow> Some c
      | Some b \<Rightarrow>
          if candidate_distance x c < candidate_distance x b then Some c
          else if candidate_distance x b < candidate_distance x c then Some b
          else if even (fst c) then Some c else Some b)"

definition exponential :: "nat \<Rightarrow> int \<Rightarrow> string" where
  "exponential m e =
     (case concat (map (\<lambda>k. case nearest_candidate (m * 2 ^ nat e) (shortest_candidates m e k) of
                               None \<Rightarrow> [] | Some c \<Rightarrow> [c]) [1..<18]) of
        [] \<Rightarrow> show_nat (m * 2 ^ nat e)
      | (s, k, n) # _ \<Rightarrow>
          (let ds = show_nat s in
           (if k = 1 then ds else take 1 ds @ ''.'' @ drop 1 ds) @ ''e+'' @ show_nat (n - 1)))"

text \<open>
  \<^verbatim>\<open>x.toFixed(2)\<close>: NaN and the infinities print their names; from \<open>10^21\<close> on, the
  result is that of toString; otherwise the integer \<open>n\<close> nearest to \<open>100 * |x|\<close> (the
  larger of two) is printed with two decimals, after a minus sign when \<open>x < 0\<close>.
\<close>

definition hundredths :: "nat \<Rightarrow> int \<Rightarrow> nat" where
  "hundredths m e =
     (if 0 \<le> e then 100 * m * 2 ^ nat e
      else (200 * m + 2 ^ nat (- e)) div 2 ^ (nat (- e) + 1))"

text \<open>The digits of \<open>n\<close> hundredths: at least one before the point, two after it.\<close>

definition two_decimals :: "nat \<Rightarrow> string" where
  "two_decimals n =
     (let ds = show_nat n;
          padded = replicate (3 - length ds) (CHR ''0'') @ ds
      in take (length padded - 2) padded @ ''.'' @ drop (length padded - 2) padded)"

text \<open>
  A fixed-point decimal with two places is the integer number of its hundredths; its text
  is the sign, the integer part, the point and the two decimals.
\<close>

type_synonym decimal = int

definition show_decimal :: "decimal \<Rightarrow> string" where
  "show_decimal c = (if c < 0 then ''-'' else []) @ two_decimals (nat \<bar>c\<bar>)"

definition toFixed2 :: "js_number \<Rightarrow> string" where
  "toFixed2 x =
     (case x of
        NaN \<Rightarrow> ''NaN''
      | Infinity neg \<Rightarrow> (if neg then ''-Infinity'' else ''Infinity'')
      | Finite neg m e \<Rightarrow>
          if 0 \<le> e \<and> 10 ^ 21 \<le> m * 2 ^ nat e then (if neg then ''-'' else []) @ exponential m e
          else (if neg \<and> m \<noteq> 0 then ''-'' else []) @ two_decimals (hundredths m e))"

text \<open>
  A value thrown or a rejection reason. The client only tests
  \<^verbatim>\<open>error instanceof Error\<close> and reads \<^verbatim>\<open>error.message\<close>, so an instance of
  Error (or of a subclass: TypeError, SyntaxError) is its message.
\<close>

datatype thrown = ErrorObject (message: string) | NonError

section \<open>The API client, \<^verbatim>\<open>web/src/lib/api.ts\<close>\<close>

datatype http_method = GET | POST

record csv_file =
  file_name :: string
  file_content :: string

datatype body = NoBody | JsonText string | FormData "(string \<times> csv_file) list"

record request =
  url :: string
  req_method :: http_method
  headers :: "(string \<times> string) list"
  body :: body

text \<open>
  What the client reads of a Response of the Fetch API: the status, the status text,
  the outcome of \<^verbatim>\<open>response.text()\<close> (None when that promise rejects) and the
  outcome of \<^verbatim>\<open>response.json()\<close> (the rejection reason, or the parsed body).
\<close>

record 'j http_response =
  status :: nat
  statusText :: string
  text_body :: "string option"
  json_body :: "thrown + 'j"

text \<open>\<^verbatim>\<open>response.ok\<close> is true for the statuses 200 to 299.\<close>

definition ok :: "'j http_response \<Rightarrow> bool" where
  "ok r = (200 \<le> status r \<and> status r \<le> 299)"

text \<open>\<^verbatim>\<open>fetch\<close> either rejects (no HTTP response at all) or resolves to a response.\<close>

datatype 'j fetch_result = Rejected thrown | Responded "'j http_response"

text \<open>
  The network is a parameter: what the \<open>n\<close>-th call of fetch gets for its request. The
  state threaded through the client is the list \<open>sent\<close> of the requests issued so far.
\<close>

type_synonym 'j network = "nat \<Rightarrow> request \<Rightarrow> 'j fetch_result"

definition fetch :: "'j network \<Rightarrow> request \<Rightarrow> request list \<Rightarrow> 'j fetch_result \<times> request list" where
  "fetch net req sent = (net (length sent) req, sent @ [req])"

text \<open>
  \<^verbatim>\<open>const API_BASE = process.env.NEXT_PUBLIC_API_BASE_URL ?? "http://127.0.0.1:8000"\<close>
\<close>

definition API_BASE :: "string option \<Rightarrow> string" where
  "API_BASE env = (case env of None \<Rightarrow> ''http://127.0.0.1:8000'' | Some u \<Rightarrow> u)"

subsection \<open>The query payload and its serialisation\<close>

record payload =
  question :: string
  payload_month :: "string option"
  limit_evidence :: "int option"

definition dquote :: char where
  "dquote = CHR 0x22"

definition backslash :: char where
  "backslash = CHR 0x5C"

text \<open>
  \<^verbatim>\<open>JSON.stringify\<close> of a string (QuoteJSONString): the quote and the backslash are
  escaped, the control characters have their short escapes or \<^verbatim>\<open>\u00xx\<close>.
\<close>

definition json_escape :: "char \<Rightarrow> string" where
  "json_escape c =
     (let n = (of_char c :: nat) in
      if c = dquote then [backslash, dquote]
      else if c = backslash then [backslash, backslash]
      else if n = 8 then [backslash, CHR ''b'']
      else if n = 12 then [backslash, CHR ''f'']
      else if n = 10 then [backslash, CHR ''n'']
      else if n = 13 then [backslash, CHR ''r'']
      else if n = 9 then [backslash, CHR ''t'']
      else if n < 32 then [backslash, CHR ''u'', CHR ''0'', CHR ''0'', digit_char (n div 16), digit_char (n mod 16)]
      else [c])"

definition json_quote :: "string \<Rightarrow> string" where
  "json_quote s = dquote # concat (map json_escape s) @ [dquote]"

text \<open>
  \<^verbatim>\<open>JSON.stringify(payload)\<close>: the own properties in insertion order; a property that
  was never assigned is absent.
\<close>

definition JSON_stringify :: "payload \<Rightarrow> string" where
  "JSON_stringify p =
     ''{'' @ json_quote ''question'' @ '':'' @ json_quote (question p)
     @ (case payload_month p of None \<Rightarrow> [] | Some m \<Rightarrow> '','' @ json_quote ''month'' @ '':'' @ json_quote m)
     @ (case limit_evidence p of None \<Rightarrow> [] | Some n \<Rightarrow> '','' @ json_quote ''limit_evidence'' @ '':'' @ show_int n)
     @ ''}''"

subsection \<open>queryFinance and ingestCsv\<close>

definition query_request :: "string option \<Rightarrow> payload \<Rightarrow> request" where
  "query_request env p =
     \<lparr>url = API_BASE env @ ''/query'', req_method = POST,
      headers = [(''Content-Type'', ''application/json'')],
      body = JsonText (JSON_stringify p)\<rparr>"

text \<open>
  \<^verbatim>\<open>
  const response = await fetch(`${API_BASE}/query`, {method: "POST", headers: ..., body: JSON.stringify(payload)});
  if (!response.ok) {
    const errorText = await response.text().catch(() => "Unknown error");
    throw new Error(`Query failed: ${response.status} ${response.statusText} - ${errorText}`);
  }
  return response.json();
  \<close>
  Inl is the value the returned promise rejects with, Inr the value it resolves to.
  \<open>query_result\<close> is the part of the function after \<^verbatim>\<open>await fetch\<close>: what the promise
  settles with, given what fetch settled with.
\<close>

definition query_result :: "'j fetch_result \<Rightarrow> thrown + 'j" where
  "query_result fr =
     (case fr of
        Rejected e \<Rightarrow> Inl e
      | Responded response \<Rightarrow>
          if \<not> ok response then
            (let errorText = (case text_body response of None \<Rightarrow> ''Unknown error'' | Some t \<Rightarrow> t)
             in Inl (ErrorObject (''Query failed: '' @ show_nat (status response) @ '' ''
                       @ statusText response @ '' - '' @ errorText)))
          else json_body response)"

definition queryFinance ::
  "string option \<Rightarrow> 'j network \<Rightarrow> payload \<Rightarrow> request list \<Rightarrow> (thrown + 'j) \<times> request list" where
  "queryFinance env net p sent =
     (case fetch net (query_request env p) sent of (fr, sent') \<Rightarrow> (query_result fr, sent'))"

definition ingest_request :: "string option \<Rightarrow> csv_file \<Rightarrow> request" where
  "ingest_request env f =
     \<lparr>url = API_BASE env @ ''/ingest?replace=true'', req_method = POST,
      headers = [], body = FormData [(''file'', f)]\<rparr>"

definition ingestCsv ::
  "string option \<Rightarrow> 'j network \<Rightarrow> csv_file \<Rightarrow> request list \<Rightarrow> (thrown + 'j) \<times> request list" where
  "ingestCsv env net f sent =
     (case fetch net (ingest_request env f) sent of
        (Rejected e, sent') \<Rightarrow> (Inl e, sent')
      | (Responded response, sent') \<Rightarrow>
          if \<not> ok response then
            (let errorText = (case text_body response of None \<Rightarrow> ''Unknown error'' | Some t \<Rightarrow> t)
             in (Inl (ErrorObject (''CSV ingestion failed: '' @ show_nat (status response) @ '' ''
                       @ statusText response @ '' - '' @ errorText)), sent'))
          else (json_body response, sent'))"

section \<open>The chat page, \<^verbatim>\<open>web/app/chat/page.tsx\<close>\<close>

subsection \<open>The response of the query endpoint as the page reads it\<close>

text \<open>
  The page types the response as \<^verbatim>\<open>any\<close> and reads its fields \<^verbatim>\<open>final_answer\<close>,
  \<^verbatim>\<open>clarifying_question\<close>, \<^verbatim>\<open>numbers\<close>, \<^verbatim>\<open>evidence\<close> and \<^verbatim>\<open>trace\<close>. It is
  modelled as an object of the schema of the query interface (section 6 of the
  specification): two optional texts, the named numbers (fixed-point decimals, in
  hundredths), the evidence rows and the trace. A row is a JSON object whose fields carry text: the list
  of its fields, each a name and a text; a field that is absent or null is not in the
  list. \<open>field r name\<close> is \<^verbatim>\<open>r.name\<close>.
\<close>

type_synonym row = "(string \<times> string) list"

definition field :: "row \<Rightarrow> string \<Rightarrow> string option" where
  "field r name = map_of r name"

text \<open>
  Modelled from the spec: the trace of a response (section 6), which the page only prints:
  the intent, the month, the functions called, the filter fields and the number of rows.
\<close>

record trace =
  intent :: string
  resolved_month :: "string option"
  called_functions :: "string list"
  filters_used :: "(string \<times> string) list"
  evidence_count_returned :: nat

text \<open>The response, with the five fields the page reads.\<close>

record response =
  final_answer :: "string option"
  clarifying_question :: "string option"
  numbers :: "(string \<times> decimal) list"
  evidence :: "row list"
  trace :: "trace option"

text \<open>
  An optional text in a condition or under \<^verbatim>\<open>||\<close>: null, undefined and the empty
  string are falsy.
\<close>

definition truthy :: "string option \<Rightarrow> bool" where
  "truthy v = (case v of None \<Rightarrow> False | Some t \<Rightarrow> t \<noteq> [])"

subsection \<open>Messages and the state of the component\<close>

datatype role = User | Assistant

record message =
  msg_id :: string
  role :: role
  content :: string
  data :: "response option"

text \<open>A parsed JSON value (what \<^verbatim>\<open>JSON.parse\<close> returns), for the stored preview.\<close>

datatype json =
  JNull | JBool bool | JNum rat | JStr string | JArr "json list" | JObj "(string \<times> json) list"

fun json_truthy :: "json \<Rightarrow> bool" where
  "json_truthy JNull = False"
| "json_truthy (JBool b) = b"
| "json_truthy (JNum x) = (x \<noteq> 0)"
| "json_truthy (JStr t) = (t \<noteq> [])"
| "json_truthy (JArr xs) = True"
| "json_truthy (JObj kvs) = True"

text \<open>
  \<^verbatim>\<open>v.length === 0\<close>: the length of an array or of a string, the property of that name
  of an object; of any other value the length is undefined.
\<close>

fun length_is_zero :: "json \<Rightarrow> bool" where
  "length_is_zero (JArr xs) = (xs = [])"
| "length_is_zero (JStr t) = (t = [])"
| "length_is_zero (JObj kvs) = (map_of kvs ''length'' = Some (JNum 0))"
| "length_is_zero j = False"

record chat_state =
  messages :: "message list"
  input :: string
  month :: string
  limitEvidence :: int
  isLoading :: bool
  csvName :: "string option"
  csvPreview :: json
  showPreviewModal :: bool

text \<open>The initial values of the \<^verbatim>\<open>useState\<close> hooks.\<close>

definition initial_state :: chat_state where
  "initial_state =
     \<lparr>messages = [], input = [], month = [], limitEvidence = 20, isLoading = False,
      csvName = None, csvPreview = JNull, showPreviewModal = False\<rparr>"

subsection \<open>The effect run at mount\<close>

text \<open>
  \<^verbatim>\<open>
  const name = localStorage.getItem("pfa_csv_name");
  const previewStr = localStorage.getItem("pfa_csv_preview");
  setCsvName(name);
  if (previewStr) {
    try { setCsvPreview(JSON.parse(previewStr)); } catch (e) { setCsvPreview(null); }
  }
  \<close>
  The local storage is a map from keys to texts. \<^verbatim>\<open>JSON.parse\<close> is a parameter: None
  where it throws (the text is not valid JSON).
\<close>

definition mount_effect :: "(string \<Rightarrow> json option) \<Rightarrow> (string \<rightharpoonup> string) \<Rightarrow> chat_state \<Rightarrow> chat_state" where
  "mount_effect JSON_parse localStorage st =
     (let name = localStorage ''pfa_csv_name'';
          previewStr = localStorage ''pfa_csv_preview'';
          st1 = st\<lparr>csvName := name\<rparr>
      in if truthy previewStr then
           (case JSON_parse (the previewStr) of
              Some v \<Rightarrow> st1\<lparr>csvPreview := v\<rparr>
            | None \<Rightarrow> st1\<lparr>csvPreview := JNull\<rparr>)
         else st1)"

text \<open>\<^verbatim>\<open>disabled={!csvPreview || csvPreview.length === 0}\<close> of the View CSV button.\<close>

definition view_csv_disabled :: "chat_state \<Rightarrow> bool" where
  "view_csv_disabled st = (\<not> json_truthy (csvPreview st) \<or> length_is_zero (csvPreview st))"

subsection \<open>The input handlers\<close>



definition onChange_input :: "string \<Rightarrow> chat_state \<Rightarrow> chat_state" where
  "onChange_input v st = st\<lparr>input := v\<rparr>"

subsection \<open>handleSend\<close>

text \<open>
  The payload of a submission:
  \<^verbatim>\<open>
  const payload = { question: input };
  if (month.trim()) { payload.month = month.trim(); }
  if (limitEvidence > 0) { payload.limit_evidence = limitEvidence; }
  \<close>
\<close>

definition build_payload :: "chat_state \<Rightarrow> payload" where
  "build_payload st =
     \<lparr>question = input st,
      payload_month = (if trim (month st) \<noteq> [] then Some (trim (month st)) else None),
      limit_evidence = (if limitEvidence st > 0 then Some (limitEvidence st) else None)\<rparr>"

text \<open>
  handleSend is asynchronous. Its first part runs up to the call of queryFinance: the
  guard, the user's message, the cleared input, the loading flag and the payload. None:
  the guard returned. \<open>now\<close> is \<^verbatim>\<open>Date.now()\<close>.
\<close>

definition handleSend_begin :: "chat_state \<Rightarrow> int \<Rightarrow> (chat_state \<times> payload) option" where
  "handleSend_begin st now =
     (if trim (input st) = [] \<or> isLoading st then None
      else
        let userMessage = \<lparr>msg_id = show_int now, role = User, content = input st, data = None\<rparr>
        in Some (st\<lparr>messages := messages st @ [userMessage], input := [], isLoading := True\<rparr>,
                 build_payload st))"

text \<open>
  The names \<^verbatim>\<open>input\<close>, \<^verbatim>\<open>isLoading\<close>, \<^verbatim>\<open>month\<close> and \<^verbatim>\<open>limitEvidence\<close> in the body of
  handleSend are constants of the render that created the function; the setters act on
  the state the hooks hold when they run (\<^verbatim>\<open>setMessages((prev) => [...prev, userMessage])\<close>
  takes the list from there). A call made from a render that saw \<open>seen\<close>, while the hooks
  hold \<open>st\<close>: the guard, the user's message and the payload read \<open>seen\<close>, the three
  updates go to \<open>st\<close>. handleSend_begin is the call from a render of the state the hooks
  hold.
\<close>

definition handleSend_call ::
  "chat_state \<Rightarrow> chat_state \<Rightarrow> int \<Rightarrow> (chat_state \<times> payload) option" where
  "handleSend_call seen st now =
     (if trim (input seen) = [] \<or> isLoading seen then None
      else
        let userMessage = \<lparr>msg_id = show_int now, role = User, content = input seen, data = None\<rparr>
        in Some (st\<lparr>messages := messages st @ [userMessage], input := [], isLoading := True\<rparr>,
                 build_payload seen))"

text \<open>
  \<^verbatim>\<open>content: response.final_answer || response.clarifying_question || "No response"\<close>
\<close>

definition response_content :: "response \<Rightarrow> string" where
  "response_content r =
     (if truthy (final_answer r) then the (final_answer r)
      else if truthy (clarifying_question r) then the (clarifying_question r)
      else ''No response'')"

text \<open>
  \<^verbatim>\<open>content: `Error: ${error instanceof Error ? error.message : "Failed to get response"}`\<close>
\<close>

definition error_content :: "thrown \<Rightarrow> string" where
  "error_content e =
     ''Error: '' @ (case e of ErrorObject m \<Rightarrow> m | NonError \<Rightarrow> ''Failed to get response'')"

text \<open>
  Its second part runs when the promise of queryFinance settles: the assistant's message
  (the answer in the try block, the error in the catch block), then the finally block.
  The value the promise resolves to is an object of the schema above; were it null, reading
  its fields would throw inside the try block and the catch block would run.
\<close>

definition handleSend_settle :: "chat_state \<Rightarrow> int \<Rightarrow> thrown + response \<Rightarrow> chat_state" where
  "handleSend_settle st now outcome =
     (let m = (case outcome of
                 Inr r \<Rightarrow> \<lparr>msg_id = show_int (now + 1), role = Assistant,
                           content = response_content r, data = Some r\<rparr>
               | Inl e \<Rightarrow> \<lparr>msg_id = show_int (now + 1), role = Assistant,
                           content = error_content e, data = None\<rparr>)
      in st\<lparr>messages := messages st @ [m], isLoading := False\<rparr>)"

text \<open>
  One call of handleSend run to its end with nothing in between: \<open>now1\<close> and \<open>now2\<close> are
  the two readings of the clock, \<open>sent\<close> the requests issued before the call.
\<close>

definition handleSend ::
  "string option \<Rightarrow> response network \<Rightarrow> chat_state \<Rightarrow> int \<Rightarrow> int \<Rightarrow> request list
     \<Rightarrow> chat_state \<times> request list" where
  "handleSend env net st now1 now2 sent =
     (case handleSend_begin st now1 of
        None \<Rightarrow> (st, sent)
      | Some (st1, p) \<Rightarrow>
          (case queryFinance env net p sent of
             (outcome, sent') \<Rightarrow> (handleSend_settle st1 now2 outcome, sent')))"

subsection \<open>AssistantMessage\<close>

text \<open>
  The main answer of an assistant message: the plain content when the message carries
  no data; otherwise a paragraph for \<^verbatim>\<open>data.final_answer\<close> and one for
  \<^verbatim>\<open>data.clarifying_question\<close>, each only when truthy.
\<close>

datatype answer_part = Plain string | Answer string | Clarification string

definition main_answer :: "message \<Rightarrow> answer_part list" where
  "main_answer m =
     (case data m of
        None \<Rightarrow> [Plain (content m)]
      | Some d \<Rightarrow>
          (if truthy (final_answer d) then [Answer (the (final_answer d))] else [])
          @ (if truthy (clarifying_question d) then [Clarification (the (clarifying_question d))] else []))"

text \<open>
  The cells of one row of the evidence table:
  \<^verbatim>\<open>{row.date || "-"}\<close>, \<^verbatim>\<open>{row.where || "-"}\<close>, \<^verbatim>\<open>{row.what || "-"}\<close>,
  \<^verbatim>\<open>{row.amount ? `$${parseFloat(row.amount).toFixed(2)}` : "-"}\<close>,
  \<^verbatim>\<open>{row.category || "-"}\<close>, \<^verbatim>\<open>{row.source || "-"}\<close>.
\<close>

definition text_cell :: "string option \<Rightarrow> string" where
  "text_cell v = (if truthy v then the v else ''-'')"

definition amount_cell :: "string option \<Rightarrow> string" where
  "amount_cell v = (if truthy v then ''$'' @ toFixed2 (parseFloat (the v)) else ''-'')"

text \<open>The names of the six fields the table reads, in the order of its columns.\<close>

definition evidence_fields :: "string list" where
  "evidence_fields = [''date'', ''where'', ''what'', ''amount'', ''category'', ''source'']"

definition evidence_cells :: "row \<Rightarrow> string list" where
  "evidence_cells r =
     [text_cell (field r ''date''), text_cell (field r ''where''), text_cell (field r ''what''),
      amount_cell (field r ''amount''), text_cell (field r ''category''),
      text_cell (field r ''source'')]"

text \<open>The table, or None where the page prints \<^verbatim>\<open>No evidence rows\<close>.\<close>

definition evidence_table :: "response \<Rightarrow> string list list option" where
  "evidence_table d = (if evidence d \<noteq> [] then Some (map evidence_cells (evidence d)) else None)"

subsection \<open>The page as a transition system\<close>










section \<open>The query engine behind the endpoint\<close>

text \<open>
  The engine that answers \<^verbatim>\<open>/query\<close> (the backend) is not among the sources of the web
  client. What the claims about it need is modelled from the specification, each
  definition marked as such. Decimals are fixed-point with two places: the integer number
  of hundredths.
\<close>

text \<open>Modelled from the spec: the kind of a transaction, \<^verbatim>\<open>{expense, income}\<close> (section 3).\<close>

datatype kind = Expense | Income

text \<open>Modelled from the spec: a calendar date (section 3).\<close>

record calendar_date =
  cal_year :: nat
  cal_month :: nat
  cal_day :: nat

text \<open>Modelled from the spec: a month, \<^verbatim>\<open>YYYY-MM\<close>: a year and a month of it.\<close>

type_synonym year_month = "nat \<times> nat"

text \<open>Modelled from the spec: the Transaction record of section 3.\<close>

record transaction =
  date :: calendar_date
  amount :: decimal
  merchant :: string
  description :: string
  category :: string
  source :: string
  kind :: kind

text \<open>Modelled from the spec: the Filter value object of section 3, every field optional.\<close>

record filter_spec =
  f_month :: "year_month option"
  f_category :: "string option"
  f_merchant :: "string option"
  f_source :: "string option"
  f_kind :: "kind option"

text \<open>
  Modelled from the spec: the predicate of a filter (section 4.4): every non-empty field
  must hold, by equality, the month by the calendar month of the date.
\<close>

definition matches :: "filter_spec \<Rightarrow> transaction \<Rightarrow> bool" where
  "matches f t =
     ((case f_month f of None \<Rightarrow> True
       | Some ym \<Rightarrow> cal_year (date t) = fst ym \<and> cal_month (date t) = snd ym)
      \<and> (case f_category f of None \<Rightarrow> True | Some c \<Rightarrow> category t = c)
      \<and> (case f_merchant f of None \<Rightarrow> True | Some m \<Rightarrow> merchant t = m)
      \<and> (case f_source f of None \<Rightarrow> True | Some s \<Rightarrow> source t = s)
      \<and> (case f_kind f of None \<Rightarrow> True | Some k \<Rightarrow> kind t = k))"

text \<open>
  Modelled from the spec: the single filter-application routine shared by the metric
  functions and the evidence selector (sections 4.5 and 9).
\<close>

definition apply_filter :: "transaction list \<Rightarrow> filter_spec \<Rightarrow> transaction list" where
  "apply_filter store f = filter (matches f) store"

text \<open>Modelled from the spec: MetricResult, \<^verbatim>\<open>{value, count, filters_used}\<close> (section 3).\<close>

record metric_result =
  metric_value :: decimal
  metric_count :: nat
  metric_filters_used :: filter_spec

text \<open>
  Modelled from the spec: a metric function (section 4.4): filter the store, then sum
  the amounts and count the rows; an empty match gives value 0 and count 0.
\<close>

definition metric_total :: "transaction list \<Rightarrow> filter_spec \<Rightarrow> metric_result" where
  "metric_total store f =
     \<lparr>metric_value = sum_list (map amount (apply_filter store f)),
      metric_count = length (apply_filter store f),
      metric_filters_used = f\<rparr>"

text \<open>Modelled from the spec: the order of dates, for the most recent first of section 4.5.\<close>

definition date_le :: "calendar_date \<Rightarrow> calendar_date \<Rightarrow> bool" where
  "date_le a b =
     (cal_year a < cal_year b
      \<or> (cal_year a = cal_year b
          \<and> (cal_month a < cal_month b \<or> (cal_month a = cal_month b \<and> cal_day a \<le> cal_day b))))"

text \<open>Modelled from the spec: insertion of a row in a list ordered by date descending.\<close>

fun insert_by_date :: "transaction \<Rightarrow> transaction list \<Rightarrow> transaction list" where
  "insert_by_date t [] = [t]"
| "insert_by_date t (u # us) =
     (if date_le (date u) (date t) then t # u # us else u # insert_by_date t us)"

text \<open>Modelled from the spec: ordering rows by date descending (section 4.5).\<close>

fun sort_by_date_desc :: "transaction list \<Rightarrow> transaction list" where
  "sort_by_date_desc [] = []"
| "sort_by_date_desc (t # ts) = insert_by_date t (sort_by_date_desc ts)"

text \<open>
  Modelled from the spec: the evidence selector (section 4.5): the rows matching the same
  filter, most recent first, up to \<open>limit\<close>.
\<close>

definition select_evidence :: "transaction list \<Rightarrow> filter_spec \<Rightarrow> nat \<Rightarrow> transaction list" where
  "select_evidence store f limit = take limit (sort_by_date_desc (apply_filter store f))"

text \<open>
  Modelled from the spec: the entities the EntityResolver extracted from a question
  (section 4.1), one optional value per slot. The scan of the text itself is not modelled.
\<close>

record entities =
  e_category :: "string option"
  e_merchant :: "string option"
  e_source :: "string option"
  e_month :: "year_month option"

text \<open>Modelled from the spec: the closed set of intents (section 3).\<close>

datatype intent =
  monthly_summary | category_total | merchant_total | source_total | clarification_needed

text \<open>
  Modelled from the spec: the entities with the explicit month parameter, which
  overrides a month parsed from the text (section 4.2).
\<close>

definition with_explicit_month :: "entities \<Rightarrow> year_month option \<Rightarrow> entities" where
  "with_explicit_month ents explicit =
     (case explicit of None \<Rightarrow> ents | Some ym \<Rightarrow> ents\<lparr>e_month := Some ym\<rparr>)"

text \<open>
  Modelled from the spec: the IntentResolver's priority table, first match wins
  (section 4.2): category, merchant, source, month, none.
\<close>

definition resolve_intent :: "entities \<Rightarrow> intent" where
  "resolve_intent ents =
     (if e_category ents \<noteq> None then category_total
      else if e_merchant ents \<noteq> None then merchant_total
      else if e_source ents \<noteq> None then source_total
      else if e_month ents \<noteq> None then monthly_summary
      else clarification_needed)"

text \<open>Modelled from the spec: the slots a clarifying question can ask for (section 4.7).\<close>

datatype slot = TimePeriod | Category | Merchant | Source

text \<open>
  Modelled from the spec: the MetricDispatcher (section 4.3): the metric function of the
  intent (its name, as the trace records it) and its filter, or the first required slot
  that is missing. The total of a category, merchant or source requires the month and
  that entity and filters by these two only; the monthly summary requires the month.
\<close>

definition dispatch :: "intent \<Rightarrow> entities \<Rightarrow> slot + (string \<times> filter_spec)" where
  "dispatch i ents =
     (let none = \<lparr>f_month = None, f_category = None, f_merchant = None, f_source = None,
                  f_kind = None\<rparr>
      in case i of
        clarification_needed \<Rightarrow> Inl TimePeriod
      | monthly_summary \<Rightarrow>
          (case e_month ents of None \<Rightarrow> Inl TimePeriod
           | Some ym \<Rightarrow> Inr (''get_monthly_summary'', none\<lparr>f_month := Some ym\<rparr>))
      | category_total \<Rightarrow>
          (case e_month ents of None \<Rightarrow> Inl TimePeriod
           | Some ym \<Rightarrow>
               (case e_category ents of None \<Rightarrow> Inl Category
                | Some c \<Rightarrow> Inr (''get_category_total'', none\<lparr>f_month := Some ym, f_category := Some c\<rparr>)))
      | merchant_total \<Rightarrow>
          (case e_month ents of None \<Rightarrow> Inl TimePeriod
           | Some ym \<Rightarrow>
               (case e_merchant ents of None \<Rightarrow> Inl Merchant
                | Some m \<Rightarrow> Inr (''get_merchant_total'', none\<lparr>f_month := Some ym, f_merchant := Some m\<rparr>)))
      | source_total \<Rightarrow>
          (case e_month ents of None \<Rightarrow> Inl TimePeriod
           | Some ym \<Rightarrow>
               (case e_source ents of None \<Rightarrow> Inl Source
                | Some s \<Rightarrow> Inr (''get_source_total'', none\<lparr>f_month := Some ym, f_source := Some s\<rparr>))))"

text \<open>Modelled from the spec: digits padded with zeros on the left to a width.\<close>

definition pad_left :: "nat \<Rightarrow> string \<Rightarrow> string" where
  "pad_left n t = replicate (n - length t) (CHR ''0'') @ t"

text \<open>Modelled from the spec: the text of a month, \<^verbatim>\<open>YYYY-MM\<close> (section 3).\<close>

definition show_month :: "year_month \<Rightarrow> string" where
  "show_month ym = pad_left 4 (show_nat (fst ym)) @ ''-'' @ pad_left 2 (show_nat (snd ym))"

text \<open>Modelled from the spec: the text of a calendar date, \<^verbatim>\<open>YYYY-MM-DD\<close>.\<close>

definition show_date :: "calendar_date \<Rightarrow> string" where
  "show_date d = show_month (cal_year d, cal_month d) @ ''-'' @ pad_left 2 (show_nat (cal_day d))"

text \<open>
  Modelled from the spec: an evidence row at the query interface (section 6), the object
  \<^verbatim>\<open>{date, where, what, amount, category, source}\<close> of a transaction: where is the
  merchant, what is the description.
\<close>

definition evidence_row_of :: "transaction \<Rightarrow> row" where
  "evidence_row_of t =
     [(''date'', show_date (date t)), (''where'', merchant t), (''what'', description t),
      (''amount'', show_decimal (amount t)), (''category'', category t), (''source'', source t)]"

text \<open>Modelled from the spec: the names of the intents (section 3).\<close>

fun intent_name :: "intent \<Rightarrow> string" where
  "intent_name monthly_summary = ''monthly_summary''"
| "intent_name category_total = ''category_total''"
| "intent_name merchant_total = ''merchant_total''"
| "intent_name source_total = ''source_total''"
| "intent_name clarification_needed = ''clarification_needed''"

text \<open>Modelled from the spec: the names of the slots (section 4.7).\<close>

fun slot_name :: "slot \<Rightarrow> string" where
  "slot_name TimePeriod = ''time period''"
| "slot_name Category = ''category''"
| "slot_name Merchant = ''merchant''"
| "slot_name Source = ''source''"

text \<open>Modelled from the spec: the non-empty fields of a filter, as the trace lists them.\<close>

definition filter_fields :: "filter_spec \<Rightarrow> (string \<times> string) list" where
  "filter_fields f =
     (case f_month f of None \<Rightarrow> [] | Some ym \<Rightarrow> [(''month'', show_month ym)])
     @ (case f_kind f of None \<Rightarrow> []
        | Some k \<Rightarrow> [(''kind'', case k of Expense \<Rightarrow> ''expense'' | Income \<Rightarrow> ''income'')])
     @ (case f_category f of None \<Rightarrow> [] | Some c \<Rightarrow> [(''category'', c)])
     @ (case f_merchant f of None \<Rightarrow> [] | Some m \<Rightarrow> [(''merchant'', m)])
     @ (case f_source f of None \<Rightarrow> [] | Some s \<Rightarrow> [(''source'', s)])"

text \<open>
  Modelled from the spec: the entity an answer names: the category, merchant or source of
  the filter, none for a monthly summary.
\<close>

definition entity_name :: "filter_spec \<Rightarrow> string option" where
  "entity_name f =
     (case f_category f of Some c \<Rightarrow> Some c
      | None \<Rightarrow> (case f_merchant f of Some m \<Rightarrow> Some m | None \<Rightarrow> f_source f))"

text \<open>
  Modelled from the spec: the templated sentence of an answer (section 4.7), composed from
  the value, the count, the month and the entity name, in the wording of the README's
  example: \<^verbatim>\<open>You spent $59.87 on Food in 2025-06 across 6 transactions.\<close>
\<close>

definition answer_text :: "metric_result \<Rightarrow> string" where
  "answer_text m =
     ''You spent $'' @ show_decimal (metric_value m)
     @ (case entity_name (metric_filters_used m) of None \<Rightarrow> [] | Some name \<Rightarrow> '' on '' @ name)
     @ (case f_month (metric_filters_used m) of None \<Rightarrow> [] | Some ym \<Rightarrow> '' in '' @ show_month ym)
     @ '' across '' @ show_nat (metric_count m) @ '' transactions.''"

text \<open>
  Modelled from the spec: the clarifying question (section 4.7), which names the missing
  information: time period, category, merchant or source.
\<close>

definition clarify_text :: "slot \<Rightarrow> string" where
  "clarify_text s = ''Which '' @ slot_name s @ '' do you mean?''"

text \<open>
  Modelled from the spec: the TraceBuilder (section 4.6), a recorder of the intent, the
  month, the functions invoked, the filter and the number of rows returned.
\<close>

definition build_trace ::
  "intent \<Rightarrow> entities \<Rightarrow> string list \<Rightarrow> (string \<times> string) list \<Rightarrow> nat \<Rightarrow> trace" where
  "build_trace i ents fs used n =
     \<lparr>intent = intent_name i, resolved_month = map_option show_month (e_month ents),
      called_functions = fs, filters_used = used, evidence_count_returned = n\<rparr>"

text \<open>Modelled from the spec: a count as a decimal, \<open>n\<close> being \<open>n.00\<close>.\<close>

definition decimal_of_nat :: "nat \<Rightarrow> decimal" where
  "decimal_of_nat n = 100 * int n"

text \<open>
  Modelled from the spec: the ResponseAssembler (section 4.7) for a computed answer: the
  sentence, the numbers \<open>total\<close> and \<open>count\<close> (section 8), the evidence rows and the
  trace; no clarifying question.
\<close>

definition assemble_answer ::
  "intent \<Rightarrow> entities \<Rightarrow> string \<Rightarrow> metric_result \<Rightarrow> transaction list \<Rightarrow> response" where
  "assemble_answer i ents fname m ev =
     \<lparr>final_answer = Some (answer_text m), clarifying_question = None,
      numbers = [(''total'', metric_value m), (''count'', decimal_of_nat (metric_count m))],
      evidence = map evidence_row_of ev,
      trace = Some (build_trace i ents [''dispatch'', fname, ''select'']
                      (filter_fields (metric_filters_used m)) (length ev))\<rparr>"

text \<open>
  Modelled from the spec: the ResponseAssembler for a clarification: the question, and
  no answer, numbers or evidence.
\<close>

definition assemble_clarification :: "intent \<Rightarrow> entities \<Rightarrow> slot \<Rightarrow> response" where
  "assemble_clarification i ents missing =
     \<lparr>final_answer = None, clarifying_question = Some (clarify_text missing),
      numbers = [], evidence = [],
      trace = Some (build_trace i ents [''dispatch''] [] 0)\<rparr>"

text \<open>
  Modelled from the spec: the pipeline of section 2 from the resolved entities on: the
  intent, the dispatch, then either the clarification or the metric and the evidence, both
  from the one filter. \<open>limit\<close> is \<^verbatim>\<open>limit_evidence\<close>, 20 when absent (section 6).
\<close>

definition query ::
  "transaction list \<Rightarrow> entities \<Rightarrow> year_month option \<Rightarrow> nat option \<Rightarrow> response" where
  "query store ents explicit limit =
     (let ents' = with_explicit_month ents explicit;
          i = resolve_intent ents'
      in case dispatch i ents' of
           Inl missing \<Rightarrow> assemble_clarification i ents' missing
         | Inr (fname, f) \<Rightarrow>
             assemble_answer i ents' fname (metric_total store f)
               (select_evidence store f (case limit of None \<Rightarrow> 20 | Some n \<Rightarrow> n)))"

text \<open>Modelled from the spec: a transaction of the account of the README's example.\<close>

definition example_transaction ::
  "nat \<Rightarrow> nat \<Rightarrow> nat \<Rightarrow> decimal \<Rightarrow> string \<Rightarrow> string \<Rightarrow> string \<Rightarrow> transaction" where
  "example_transaction y m d a mer des cat =
     \<lparr>date = \<lparr>cal_year = y, cal_month = m, cal_day = d\<rparr>, amount = a, merchant = mer,
      description = des, category = cat, source = ''Chase'', kind = Expense\<rparr>"

text \<open>
  Modelled from the spec: the dataset of the scenario of section 8, six Food transactions
  in June 2025 totalling 59.87 (three of them are the rows of the README's example), with
  a transaction of another category and one of another month beside them.
\<close>

definition june_store :: "transaction list" where
  "june_store =
     [example_transaction 2025 6 28 1000 ''Thai Essence'' ''Noodles'' ''Food'',
      example_transaction 2025 6 30 2371 ''Strings Ramen'' ''Ramen'' ''Food'',
      example_transaction 2025 6 12 550 ''Cafe'' ''Coffee'' ''Food'',
      example_transaction 2025 6 15 8900 ''Shell'' ''Fuel'' ''Transport'',
      example_transaction 2025 6 29 1229 ''Burger Federation'' ''Avocado toast'' ''Food'',
      example_transaction 2025 5 30 999 ''Strings Ramen'' ''Ramen'' ''Food'',
      example_transaction 2025 6 3 437 ''Bakery'' ''Bread'' ''Food'',
      example_transaction 2025 6 20 400 ''Deli'' ''Sandwich'' ''Food'']"

text \<open>
  Modelled from the spec: the entities of the question of that scenario,
  \<^verbatim>\<open>How much did I spend on Food in June 2025?\<close>
\<close>

definition food_in_june :: entities where
  "food_in_june =
     \<lparr>e_category = Some ''Food'', e_merchant = None, e_source = None, e_month = Some (2025, 6)\<rparr>"

section \<open>Properties of the API client\<close>

lemma queryFinance_not_found:
  "fst (queryFinance None
          (\<lambda>n req. Responded \<lparr>status = 404, statusText = ''Not Found'', text_body = Some ''gone'',
                                 json_body = Inl NonError\<rparr>)
          \<lparr>question = ''hi'', payload_month = None, limit_evidence = Some 20\<rparr> [])
   = (Inl (ErrorObject ''Query failed: 404 Not Found - gone'') :: thrown + unit)"
  by (simp add: queryFinance_def fetch_def query_result_def ok_def show_nat.simps digit_char_def)

text \<open>
  Claim C4, as stated: queryFinance returns the parsed JSON body if and only if the HTTP
  response is ok. It fails on a response that is ok and whose body is not JSON: the status
  is 200, \<^verbatim>\<open>response.json()\<close> rejects, and the call throws that rejection.
\<close>

theorem queryFinance_ok_unparsable:
  "ok \<lparr>status = 200, statusText = ''OK'', text_body = Some ''<html>'',
        json_body = (Inl (ErrorObject ''Unexpected token <'') :: thrown + unit)\<rparr>
   \<and> fst (queryFinance None
          (\<lambda>n req. Responded \<lparr>status = 200, statusText = ''OK'', text_body = Some ''<html>'',
                                 json_body = Inl (ErrorObject ''Unexpected token <'')\<rparr>)
          \<lparr>question = ''hi'', payload_month = None, limit_evidence = Some 20\<rparr> [])
     = (Inl (ErrorObject ''Unexpected token <'') :: thrown + unit)"
  by (simp add: queryFinance_def fetch_def query_result_def ok_def)

text \<open>
  Claim C4, amended: every call of queryFinance issues exactly one request, a POST of the
  JSON text of the payload to \<^verbatim>\<open>/query\<close> with the JSON content type, and never a second
  one. When fetch rejects, the call throws that rejection. When the response is not ok,
  it throws an Error whose message holds the status code and the status text (and the
  text of the body, or \<^verbatim>\<open>Unknown error\<close>). When the response is ok, its outcome is that
  of \<^verbatim>\<open>response.json()\<close>: the parsed body, or the rejection when the body does not parse.
\<close>

theorem queryFinance_single_post:
  "snd (queryFinance env net p sent) =
     sent @ [\<lparr>url = API_BASE env @ ''/query'', req_method = POST,
              headers = [(''Content-Type'', ''application/json'')],
              body = JsonText (JSON_stringify p)\<rparr>]
   \<and> fst (queryFinance env net p sent) =
     (case net (length sent) (query_request env p) of
        Rejected e \<Rightarrow> Inl e
      | Responded r \<Rightarrow>
          if ok r then json_body r
          else Inl (ErrorObject (''Query failed: '' @ show_nat (status r) @ '' '' @ statusText r
                  @ '' - '' @ (case text_body r of None \<Rightarrow> ''Unknown error'' | Some t \<Rightarrow> t))))"
  by (simp add: queryFinance_def fetch_def query_result_def query_request_def Let_def
           split: fetch_result.splits)

text \<open>
  Claim C6: for every file, ingestCsv issues exactly one request, a POST of the file as
  form data to \<^verbatim>\<open>/ingest?replace=true\<close>: every ingestion of the client is a replace
  ingestion.
\<close>

theorem ingestCsv_replaces:
  "snd (ingestCsv env net f sent) =
     sent @ [\<lparr>url = API_BASE env @ ''/ingest?replace=true'', req_method = POST, headers = [],
              body = FormData [(''file'', f)]\<rparr>]"
  by (simp add: ingestCsv_def fetch_def ingest_request_def Let_def split: fetch_result.splits)

section \<open>Properties of the chat page\<close>

subsection \<open>parseInt on the texts of the limit field\<close>








subsection \<open>The transition system\<close>




lemma handleSend_call_same: "handleSend_call st st now = handleSend_begin st now"
  by (simp add: handleSend_call_def handleSend_begin_def)

















text \<open>
  Claim C5: when the query call of a submission fails (its promise rejects with \<open>e\<close>),
  handleSend appends the user's message and exactly one assistant message, whose content
  starts with \<^verbatim>\<open>Error:\<close>; it clears the loading flag; and the one request of the call
  is the only one issued: the failed request is not issued again.
\<close>

theorem failed_query_one_error_message:
  assumes "trim (input st) \<noteq> []" and "\<not> isLoading st"
    and "fst (queryFinance env net (build_payload st) sent) = Inl e"
  shows "fst (handleSend env net st now1 now2 sent) =
           st\<lparr>messages := messages st @
                  [\<lparr>msg_id = show_int now1, role = User, content = input st, data = None\<rparr>,
                   \<lparr>msg_id = show_int (now2 + 1), role = Assistant, content = error_content e,
                     data = None\<rparr>],
               input := [], isLoading := False\<rparr>
         \<and> take 6 (error_content e) = ''Error:''
         \<and> \<not> isLoading (fst (handleSend env net st now1 now2 sent))
         \<and> snd (handleSend env net st now1 now2 sent) = sent @ [query_request env (build_payload st)]"
proof -
  obtain outcome sent' where q: "queryFinance env net (build_payload st) sent = (outcome, sent')"
    by (cases "queryFinance env net (build_payload st) sent")
  with assms(3) have o: "outcome = Inl e"
    by simp
  have s: "sent' = sent @ [query_request env (build_payload st)]"
    using q by (simp add: queryFinance_def fetch_def split: prod.splits)
  have b: "handleSend_begin st now1 =
      Some (st\<lparr>messages := messages st @
                 [\<lparr>msg_id = show_int now1, role = User, content = input st, data = None\<rparr>],
               input := [], isLoading := True\<rparr>, build_payload st)"
    using assms(1,2) by (simp add: handleSend_begin_def)
  show ?thesis
    by (simp add: handleSend_def b q o s handleSend_settle_def error_content_def)
qed

theorem failed_query_one_error_message_witness:
  "fst (handleSend None (\<lambda>n req. Rejected (ErrorObject ''Failed to fetch''))
          (onChange_input ''hi'' initial_state) 1 2 []) =
     initial_state\<lparr>messages :=
         [\<lparr>msg_id = ''1'', role = User, content = ''hi'', data = None\<rparr>,
          \<lparr>msg_id = ''3'', role = Assistant, content = ''Error: Failed to fetch'', data = None\<rparr>]\<rparr>
   \<and> snd (handleSend None (\<lambda>n req. Rejected (ErrorObject ''Failed to fetch''))
          (onChange_input ''hi'' initial_state) 1 2 [])
      = [query_request None \<lparr>question = ''hi'', payload_month = None, limit_evidence = Some 20\<rparr>]"
proof -
  have a: "trim (input (onChange_input ''hi'' initial_state)) \<noteq> []"
    by code_simp
  have b: "\<not> isLoading (onChange_input ''hi'' initial_state)"
    by code_simp
  have c: "fst (queryFinance None (\<lambda>n req. Rejected (ErrorObject ''Failed to fetch'') :: response fetch_result)
                 (build_payload (onChange_input ''hi'' initial_state)) [])
           = Inl (ErrorObject ''Failed to fetch'')"
    by (simp add: queryFinance_def fetch_def query_result_def)
  have d: "build_payload (onChange_input ''hi'' initial_state)
            = \<lparr>question = ''hi'', payload_month = None, limit_evidence = Some 20\<rparr>"
    by code_simp
  have e: "show_int 1 = ''1''" "show_int (2 + 1) = ''3''"
    by code_simp+
  show ?thesis
    using failed_query_one_error_message [OF a b c, of 1 2] d e
    by (simp add: onChange_input_def initial_state_def error_content_def)
qed




text \<open>
  Claim C10: when the text stored under \<^verbatim>\<open>pfa_csv_preview\<close> is not valid JSON, the
  effect run at mount sets the preview to null whatever it was (the parse error is
  caught), and the View CSV button is disabled. Run on the initial state, the effect
  leaves the preview null also for the empty text, which it never parses. A stored text
  that is valid JSON becomes the preview, and the stored name the name, so the effect
  does read the storage.
\<close>

theorem invalid_preview_disables_view:
  assumes "localStorage ''pfa_csv_preview'' = Some s"
  shows "(JSON_parse s = None \<and> s \<noteq> [] \<longrightarrow>
            csvPreview (mount_effect JSON_parse localStorage st) = JNull
            \<and> view_csv_disabled (mount_effect JSON_parse localStorage st))
         \<and> (JSON_parse s = None \<longrightarrow>
            csvPreview (mount_effect JSON_parse localStorage initial_state) = JNull
            \<and> view_csv_disabled (mount_effect JSON_parse localStorage initial_state))
         \<and> (JSON_parse s = Some v \<and> s \<noteq> [] \<longrightarrow>
            csvPreview (mount_effect JSON_parse localStorage st) = v)
         \<and> csvName (mount_effect JSON_parse localStorage st) = localStorage ''pfa_csv_name''"
  using assms
  by (auto simp: mount_effect_def view_csv_disabled_def initial_state_def truthy_def Let_def
      split: option.splits)

theorem invalid_preview_disables_view_witness:
  "\<not> view_csv_disabled (initial_state\<lparr>csvPreview := JArr [JNull]\<rparr>)
   \<and> csvPreview (mount_effect (\<lambda>t. if t = ''[]'' then Some (JArr []) else None)
                 [''pfa_csv_preview'' \<mapsto> ''{date:''] (initial_state\<lparr>csvPreview := JArr [JNull]\<rparr>))
       = JNull
   \<and> view_csv_disabled (mount_effect (\<lambda>t. if t = ''[]'' then Some (JArr []) else None)
                 [''pfa_csv_preview'' \<mapsto> ''{date:''] (initial_state\<lparr>csvPreview := JArr [JNull]\<rparr>))
   \<and> view_csv_disabled (mount_effect (\<lambda>t. if t = ''[]'' then Some (JArr []) else None)
                 [''pfa_csv_preview'' \<mapsto> ''{date:''] initial_state)"
proof -
  have e: "\<not> view_csv_disabled (initial_state\<lparr>csvPreview := JArr [JNull]\<rparr>)"
    by (simp add: view_csv_disabled_def)
  show ?thesis
    using invalid_preview_disables_view
      [of "[''pfa_csv_preview'' \<mapsto> ''{date:'']" "''{date:''"
          "\<lambda>t. if t = ''[]'' then Some (JArr []) else None"
          "initial_state\<lparr>csvPreview := JArr [JNull]\<rparr>"] e
    by simp
qed

section \<open>Properties of the answers and of their rendering\<close>

subsection \<open>The evidence is the set of rows the metric was computed from\<close>

lemma mset_insert_by_date: "mset (insert_by_date t ts) = add_mset t (mset ts)"
  by (induction ts) auto

lemma mset_sort_by_date_desc: "mset (sort_by_date_desc ts) = mset ts"
  by (induction ts) (auto simp: mset_insert_by_date)

lemma length_sort_by_date_desc: "length (sort_by_date_desc ts) = length ts"
  using mset_sort_by_date_desc [of ts] by (metis size_mset)

lemma sum_amount_sort_by_date_desc:
  "sum_list (map amount (sort_by_date_desc ts)) = sum_list (map amount ts)"
proof -
  have "sum_mset (image_mset amount (mset (sort_by_date_desc ts)))
          = sum_mset (image_mset amount (mset ts))"
    by (simp add: mset_sort_by_date_desc)
  then show ?thesis
    by (simp only: mset_map [symmetric] sum_mset_sum_list)
qed

lemma select_all_rows:
  "length (apply_filter store f) \<le> n \<Longrightarrow>
     select_evidence store f n = sort_by_date_desc (apply_filter store f)"
  by (simp add: select_evidence_def length_sort_by_date_desc)

lemma june_food_dispatch:
  "dispatch (resolve_intent (with_explicit_month food_in_june None))
       (with_explicit_month food_in_june None)
     = Inr (''get_category_total'',
            \<lparr>f_month = Some (2025, 6), f_category = Some ''Food'', f_merchant = None,
               f_source = None, f_kind = None\<rparr>)"
  by (simp add: food_in_june_def with_explicit_month_def resolve_intent_def dispatch_def)

lemma june_food_rows:
  "apply_filter june_store
       \<lparr>f_month = Some (2025, 6), f_category = Some ''Food'', f_merchant = None,
          f_source = None, f_kind = None\<rparr>
     = [example_transaction 2025 6 28 1000 ''Thai Essence'' ''Noodles'' ''Food'',
        example_transaction 2025 6 30 2371 ''Strings Ramen'' ''Ramen'' ''Food'',
        example_transaction 2025 6 12 550 ''Cafe'' ''Coffee'' ''Food'',
        example_transaction 2025 6 29 1229 ''Burger Federation'' ''Avocado toast'' ''Food'',
        example_transaction 2025 6 3 437 ''Bakery'' ''Bread'' ''Food'',
        example_transaction 2025 6 20 400 ''Deli'' ''Sandwich'' ''Food'']"
  by (simp add: apply_filter_def june_store_def matches_def example_transaction_def)

text \<open>
  Claim C1: for a query whose intent is dispatched with the filter \<open>f\<close> (every required
  slot resolved), the reported total is the exact decimal sum of the amounts of the
  unlimited evidence (the evidence selected with a limit no smaller than the number of
  matching rows) and the reported count is its size; the unlimited evidence is, as a
  multiset, the rows that match the filter; and the evidence of the response is its first
  \<^verbatim>\<open>limit_evidence\<close> rows.
\<close>

theorem evidence_consistent_with_metric:
  assumes "dispatch (resolve_intent (with_explicit_month ents explicit))
             (with_explicit_month ents explicit) = Inr (fname, f)"
    and "length (apply_filter store f) \<le> n"
  shows "map_of (numbers (query store ents explicit limit)) ''total''
           = Some (sum_list (map amount (select_evidence store f n)))
         \<and> map_of (numbers (query store ents explicit limit)) ''count''
           = Some (decimal_of_nat (length (select_evidence store f n)))
         \<and> metric_value (metric_total store f) = sum_list (map amount (select_evidence store f n))
         \<and> metric_count (metric_total store f) = length (select_evidence store f n)
         \<and> mset (select_evidence store f n) = filter_mset (matches f) (mset store)
         \<and> evidence (query store ents explicit limit)
           = map evidence_row_of
               (take (case limit of None \<Rightarrow> 20 | Some k \<Rightarrow> k) (select_evidence store f n))"
proof -
  have full: "select_evidence store f n = sort_by_date_desc (apply_filter store f)"
    using assms(2) by (rule select_all_rows)
  have v: "metric_value (metric_total store f) = sum_list (map amount (select_evidence store f n))"
    by (simp add: full metric_total_def sum_amount_sort_by_date_desc)
  have c: "metric_count (metric_total store f) = length (select_evidence store f n)"
    by (simp add: full metric_total_def length_sort_by_date_desc)
  have m: "mset (select_evidence store f n) = filter_mset (matches f) (mset store)"
    by (simp add: full mset_sort_by_date_desc apply_filter_def)
  have q: "query store ents explicit limit =
      assemble_answer (resolve_intent (with_explicit_month ents explicit))
        (with_explicit_month ents explicit) fname (metric_total store f)
        (select_evidence store f (case limit of None \<Rightarrow> 20 | Some k \<Rightarrow> k))"
    using assms(1) by (simp add: query_def Let_def)
  have e: "select_evidence store f (case limit of None \<Rightarrow> 20 | Some k \<Rightarrow> k)
      = take (case limit of None \<Rightarrow> 20 | Some k \<Rightarrow> k) (select_evidence store f n)"
    by (simp add: full) (simp add: select_evidence_def)
  have t: "map_of (numbers (query store ents explicit limit)) ''total''
      = Some (metric_value (metric_total store f))"
    by (simp add: q assemble_answer_def)
  have k: "map_of (numbers (query store ents explicit limit)) ''count''
      = Some (decimal_of_nat (metric_count (metric_total store f)))"
    by (simp add: q assemble_answer_def)
  have r: "evidence (query store ents explicit limit)
      = map evidence_row_of
          (take (case limit of None \<Rightarrow> 20 | Some k \<Rightarrow> k) (select_evidence store f n))"
    by (simp add: q assemble_answer_def e)
  show ?thesis
    using v c m t k r by simp
qed

theorem evidence_consistent_with_metric_witness:
  "map_of (numbers (query june_store food_in_june None (Some 3))) ''total'' = Some 5987
   \<and> map_of (numbers (query june_store food_in_june None (Some 3))) ''count'' = Some 600
   \<and> sum_list (map amount (select_evidence june_store
         \<lparr>f_month = Some (2025, 6), f_category = Some ''Food'', f_merchant = None,
            f_source = None, f_kind = None\<rparr> 8)) = 5987
   \<and> length (select_evidence june_store
         \<lparr>f_month = Some (2025, 6), f_category = Some ''Food'', f_merchant = None,
            f_source = None, f_kind = None\<rparr> 8) = 6
   \<and> length (evidence (query june_store food_in_june None (Some 3))) = 3"
proof -
  have n: "length (apply_filter june_store
       \<lparr>f_month = Some (2025, 6), f_category = Some ''Food'', f_merchant = None,
          f_source = None, f_kind = None\<rparr>) \<le> 8"
    by (simp add: june_food_rows)
  have s: "select_evidence june_store
       \<lparr>f_month = Some (2025, 6), f_category = Some ''Food'', f_merchant = None,
          f_source = None, f_kind = None\<rparr> 8
     = [example_transaction 2025 6 30 2371 ''Strings Ramen'' ''Ramen'' ''Food'',
        example_transaction 2025 6 29 1229 ''Burger Federation'' ''Avocado toast'' ''Food'',
        example_transaction 2025 6 28 1000 ''Thai Essence'' ''Noodles'' ''Food'',
        example_transaction 2025 6 20 400 ''Deli'' ''Sandwich'' ''Food'',
        example_transaction 2025 6 12 550 ''Cafe'' ''Coffee'' ''Food'',
        example_transaction 2025 6 3 437 ''Bakery'' ''Bread'' ''Food'']"
    by code_simp
  have a: "sum_list (map amount (select_evidence june_store
         \<lparr>f_month = Some (2025, 6), f_category = Some ''Food'', f_merchant = None,
            f_source = None, f_kind = None\<rparr> 8)) = 5987"
    by code_simp
  show ?thesis
    using evidence_consistent_with_metric [OF june_food_dispatch n, of "Some 3"] a
    by (simp add: s decimal_of_nat_def)
qed

subsection \<open>The answer and the clarifying question\<close>

lemma answer_text_not_empty: "answer_text m \<noteq> []"
  by (simp add: answer_text_def)

lemma clarify_text_not_empty: "clarify_text s \<noteq> []"
  by (simp add: clarify_text_def)

lemma query_texts:
  "(\<exists>a. a \<noteq> [] \<and> final_answer (query store ents explicit limit) = Some a
        \<and> clarifying_question (query store ents explicit limit) = None)
   \<or> (\<exists>c. c \<noteq> [] \<and> final_answer (query store ents explicit limit) = None
        \<and> clarifying_question (query store ents explicit limit) = Some c)"
  by (auto simp: query_def Let_def assemble_answer_def assemble_clarification_def
        answer_text_not_empty clarify_text_not_empty split: sum.splits)

lemma settle_last_message:
  "last (messages (handleSend_settle st now (Inr r)))
     = \<lparr>msg_id = show_int (now + 1), role = Assistant, content = response_content r, data = Some r\<rparr>"
  by (simp add: handleSend_settle_def)

lemma content_of_one_text:
  assumes "truthy (final_answer r) \<noteq> truthy (clarifying_question r)"
  shows "response_content r
           = (if truthy (final_answer r) then the (final_answer r) else the (clarifying_question r))"
  using assms by (auto simp: response_content_def)

text \<open>
  Claim C2: in every response of a query, exactly one of \<^verbatim>\<open>final_answer\<close> and
  \<^verbatim>\<open>clarifying_question\<close> is populated, and the populated one is a non-empty text. The
  content of the assistant message that handleSend builds from the response is the final
  answer when that is populated and the clarifying question otherwise, and the message
  shows that one text. For any response whatever in which exactly one of the two fields
  is a non-empty text, the content is that text.
\<close>

theorem one_text_per_response:
  "(final_answer (query store ents explicit limit) = None)
     \<noteq> (clarifying_question (query store ents explicit limit) = None)
   \<and> truthy (final_answer (query store ents explicit limit))
       = (final_answer (query store ents explicit limit) \<noteq> None)
   \<and> truthy (clarifying_question (query store ents explicit limit))
       = (clarifying_question (query store ents explicit limit) \<noteq> None)
   \<and> content (last (messages (handleSend_settle st now (Inr (query store ents explicit limit)))))
       = (case final_answer (query store ents explicit limit) of
            Some a \<Rightarrow> a
          | None \<Rightarrow> the (clarifying_question (query store ents explicit limit)))
   \<and> main_answer (last (messages (handleSend_settle st now (Inr (query store ents explicit limit)))))
       = (case final_answer (query store ents explicit limit) of
            Some a \<Rightarrow> [Answer a]
          | None \<Rightarrow> [Clarification (the (clarifying_question (query store ents explicit limit)))])
   \<and> (truthy (final_answer r) \<noteq> truthy (clarifying_question r) \<longrightarrow>
        content (last (messages (handleSend_settle st now (Inr r))))
          = (if truthy (final_answer r) then the (final_answer r) else the (clarifying_question r)))"
proof -
  let ?q = "query store ents explicit limit"
  have general: "truthy (final_answer r) \<noteq> truthy (clarifying_question r) \<longrightarrow>
        content (last (messages (handleSend_settle st now (Inr r))))
          = (if truthy (final_answer r) then the (final_answer r) else the (clarifying_question r))"
    using content_of_one_text [of r] by (simp add: settle_last_message)
  from query_texts [of store ents explicit limit] show ?thesis
  proof
    assume "\<exists>a. a \<noteq> [] \<and> final_answer ?q = Some a \<and> clarifying_question ?q = None"
    then obtain a where a: "a \<noteq> []" "final_answer ?q = Some a" "clarifying_question ?q = None"
      by blast
    then show ?thesis
      using general
      by (simp add: settle_last_message truthy_def response_content_def main_answer_def)
  next
    assume "\<exists>c. c \<noteq> [] \<and> final_answer ?q = None \<and> clarifying_question ?q = Some c"
    then obtain c where c: "c \<noteq> []" "final_answer ?q = None" "clarifying_question ?q = Some c"
      by blast
    then show ?thesis
      using general
      by (simp add: settle_last_message truthy_def response_content_def main_answer_def)
  qed
qed

lemma june_food_metric:
  "metric_total june_store
       \<lparr>f_month = Some (2025, 6), f_category = Some ''Food'', f_merchant = None,
          f_source = None, f_kind = None\<rparr>
     = \<lparr>metric_value = 5987, metric_count = 6,
        metric_filters_used =
          \<lparr>f_month = Some (2025, 6), f_category = Some ''Food'', f_merchant = None,
             f_source = None, f_kind = None\<rparr>\<rparr>"
  by (simp add: metric_total_def june_food_rows example_transaction_def)

lemma june_food_sentence:
  "answer_text
       \<lparr>metric_value = 5987, metric_count = 6,
          metric_filters_used =
            \<lparr>f_month = Some (2025, 6), f_category = Some ''Food'', f_merchant = None,
               f_source = None, f_kind = None\<rparr>\<rparr>
     = ''You spent $59.87 on Food in 2025-06 across 6 transactions.''"
  by (simp add: answer_text_def entity_name_def show_decimal_def two_decimals_def show_month_def
        pad_left_def show_nat.simps digit_char_def Let_def)

lemma no_entities_question:
  "clarifying_question
       (query june_store \<lparr>e_category = None, e_merchant = None, e_source = None, e_month = None\<rparr>
          None None)
     = Some ''Which time period do you mean?''"
  by (simp add: query_def Let_def with_explicit_month_def resolve_intent_def dispatch_def
        assemble_clarification_def clarify_text_def)

lemma june_food_answer:
  "final_answer (query june_store food_in_june None (Some 3))
     = Some ''You spent $59.87 on Food in 2025-06 across 6 transactions.''"
  by (simp add: query_def Let_def june_food_dispatch assemble_answer_def june_food_metric
        june_food_sentence)

theorem one_text_per_response_witness:
  "content (last (messages (handleSend_settle initial_state 1
        (Inr (query june_store food_in_june None (Some 3))))))
     = ''You spent $59.87 on Food in 2025-06 across 6 transactions.''
   \<and> clarifying_question (query june_store food_in_june None (Some 3)) = None
   \<and> content (last (messages (handleSend_settle initial_state 1
        (Inr (query june_store
                \<lparr>e_category = None, e_merchant = None, e_source = None, e_month = None\<rparr>
                None None)))))
     = ''Which time period do you mean?''
   \<and> content (last (messages (handleSend_settle initial_state 1
        (Inr \<lparr>final_answer = Some [], clarifying_question = Some ''Which month?'', numbers = [],
               evidence = [], trace = None\<rparr>))))
     = ''Which month?''"
proof -
  have t: "truthy (final_answer \<lparr>final_answer = Some [], clarifying_question = Some ''Which month?'',
              numbers = [], evidence = [], trace = None\<rparr>)
         \<noteq> truthy (clarifying_question \<lparr>final_answer = Some [],
              clarifying_question = Some ''Which month?'', numbers = [], evidence = [], trace = None\<rparr>)"
    by (simp add: truthy_def)
  show ?thesis
    using one_text_per_response
        [of june_store food_in_june None "Some 3" initial_state 1
            "\<lparr>final_answer = Some [], clarifying_question = Some ''Which month?'', numbers = [],
               evidence = [], trace = None\<rparr>"]
      one_text_per_response
        [of june_store "\<lparr>e_category = None, e_merchant = None, e_source = None, e_month = None\<rparr>"
            None None initial_state 1
            "\<lparr>final_answer = Some [], clarifying_question = Some ''Which month?'', numbers = [],
               evidence = [], trace = None\<rparr>"]
      t june_food_answer no_entities_question
    by (auto simp: truthy_def)
qed

subsection \<open>The evidence table\<close>

lemmas parse_eval =
  parseFloat_def is_js_space_def is_digit_def digits_val_def digit_val_def exponent_part_def Let_def

lemmas round_eval =
  round64_def floor_log2_def bitlen.simps round_half_even_div_def Let_def

lemmas fixed_eval =
  toFixed2_def hundredths_def two_decimals_def show_nat.simps digit_char_def Let_def

lemma parseFloat_ramen: "parseFloat ''23.71'' = round64 False 2371 100"
  by (simp add: parse_eval)

lemma round64_ramen: "round64 False 2371 100 = Finite False 6673771697809654 (- 48)"
  by (simp add: round_eval)

lemma toFixed2_ramen: "toFixed2 (Finite False 6673771697809654 (- 48)) = ''23.71''"
  by (simp add: fixed_eval)

lemma parseFloat_large: "parseFloat ''9007199254740993.00'' = round64 False 900719925474099300 100"
  by (simp add: parse_eval)

lemma round64_large: "round64 False 900719925474099300 100 = Finite False 4503599627370496 1"
  by (simp add: round_eval)

lemma toFixed2_large: "toFixed2 (Finite False 4503599627370496 1) = ''9007199254740992.00''"
  by (simp add: fixed_eval)

lemma show_decimal_large: "show_decimal 900719925474099300 = ''9007199254740993.00''"
  by (simp add: show_decimal_def two_decimals_def show_nat.simps digit_char_def Let_def)

lemma parseFloat_small: "parseFloat ''8.5'' = round64 False 85 10"
  by (simp add: parse_eval)

lemma round64_small: "round64 False 85 10 = Finite False 4785074604081152 (- 49)"
  by (simp add: round_eval)

lemma toFixed2_small: "toFixed2 (Finite False 4785074604081152 (- 49)) = ''8.50''"
  by (simp add: fixed_eval)

lemma field_cong_cells:
  assumes "\<forall>name \<in> set evidence_fields. field r name = field r' name"
  shows "evidence_cells r = evidence_cells r'"
  using assms by (simp add: evidence_cells_def evidence_fields_def)

lemma query_rows_fields:
  "\<forall>r \<in> set (evidence (query store ents explicit limit)). map fst r = evidence_fields"
  by (auto simp: query_def Let_def assemble_answer_def assemble_clarification_def
        evidence_row_of_def evidence_fields_def split: sum.splits)

text \<open>
  Claim C8: every evidence row of a response of the query interface is an object with
  exactly the fields date, where, what, amount, category and source. The evidence table of
  the chat page has one line per evidence row of the response, in their order, and is
  replaced by \<^verbatim>\<open>No evidence rows\<close> when there is none. A line shows six cells, one per
  field in that order, and reads nothing
  else of the row: rows that agree on the six fields give the same cells. A field that is
  absent, null or empty shows the placeholder \<^verbatim>\<open>-\<close>; otherwise the cell is the text of
  the field, for the amount \<^verbatim>\<open>$\<close> and the text parsed by parseFloat and printed by
  \<^verbatim>\<open>toFixed(2)\<close>.
\<close>

theorem evidence_table_reads_six_fields:
  "(\<forall>r \<in> set (evidence (query store ents explicit limit)). map fst r = evidence_fields)
   \<and> map fst (evidence_row_of t) = evidence_fields
   \<and> ((\<forall>name \<in> set evidence_fields. field r name = field r' name)
        \<longrightarrow> evidence_cells r = evidence_cells r')
   \<and> evidence_cells r = map (\<lambda>name. if name = ''amount'' then amount_cell (field r name)
                                       else text_cell (field r name)) evidence_fields
   \<and> (\<not> truthy v \<longrightarrow> text_cell v = ''-'' \<and> amount_cell v = ''-'')
   \<and> (truthy v \<longrightarrow> text_cell v = the v \<and> amount_cell v = ''$'' @ toFixed2 (parseFloat (the v)))
   \<and> (evidence d \<noteq> [] \<longrightarrow> evidence_table d = Some (map evidence_cells (evidence d)))
   \<and> (evidence d = [] \<longrightarrow> evidence_table d = None)"
proof -
  have t: "(evidence d \<noteq> [] \<longrightarrow> evidence_table d = Some (map evidence_cells (evidence d)))
        \<and> (evidence d = [] \<longrightarrow> evidence_table d = None)"
    by (simp add: evidence_table_def)
  have a: "map fst (evidence_row_of t) = evidence_fields"
    by (simp add: evidence_row_of_def evidence_fields_def)
  have b: "(\<forall>name \<in> set evidence_fields. field r name = field r' name)
        \<longrightarrow> evidence_cells r = evidence_cells r'"
    using field_cong_cells by blast
  have c: "evidence_cells r = map (\<lambda>name. if name = ''amount'' then amount_cell (field r name)
                                       else text_cell (field r name)) evidence_fields"
    by (simp add: evidence_cells_def evidence_fields_def)
  have d: "\<not> truthy v \<longrightarrow> text_cell v = ''-'' \<and> amount_cell v = ''-''"
    by (simp add: text_cell_def amount_cell_def)
  have e: "truthy v \<longrightarrow> text_cell v = the v \<and> amount_cell v = ''$'' @ toFixed2 (parseFloat (the v))"
    by (simp add: text_cell_def amount_cell_def)
  show ?thesis
    using query_rows_fields [of store ents explicit limit] a b c d e t by blast
qed

theorem evidence_table_reads_six_fields_witness:
  "evidence_cells
       ((''note'', ''not shown'') #
        evidence_row_of (example_transaction 2025 6 30 2371 ''Strings Ramen'' [] ''Food''))
     = [''2025-06-30'', ''Strings Ramen'', ''-'', ''$23.71'', ''Food'', ''Chase'']
   \<and> evidence_cells (evidence_row_of (example_transaction 2025 6 30 2371 ''Strings Ramen'' [] ''Food''))
     = [''2025-06-30'', ''Strings Ramen'', ''-'', ''$23.71'', ''Food'', ''Chase'']
   \<and> text_cell None = ''-''
   \<and> amount_cell (Some ''23.71'') = ''$23.71''
   \<and> evidence_table
         \<lparr>final_answer = None, clarifying_question = None, numbers = [],
          evidence = [evidence_row_of (example_transaction 2025 6 30 2371 ''Strings Ramen'' [] ''Food''),
                      [(''amount'', ''8.5''), (''memo'', ''not shown'')]],
          trace = None\<rparr>
       = Some [[''2025-06-30'', ''Strings Ramen'', ''-'', ''$23.71'', ''Food'', ''Chase''],
               [''-'', ''-'', ''-'', ''$8.50'', ''-'', ''-'']]
   \<and> evidence_table
         \<lparr>final_answer = None, clarifying_question = None, numbers = [], evidence = [],
          trace = None\<rparr> = None"
proof -
  let ?row = "evidence_row_of (example_transaction 2025 6 30 2371 ''Strings Ramen'' [] ''Food'')"
  have row: "?row = [(''date'', ''2025-06-30''), (''where'', ''Strings Ramen''), (''what'', []),
      (''amount'', ''23.71''), (''category'', ''Food''), (''source'', ''Chase'')]"
    by (simp add: evidence_row_of_def example_transaction_def show_date_def show_month_def
          pad_left_def show_decimal_def two_decimals_def show_nat.simps digit_char_def Let_def)
  have same: "\<forall>name \<in> set evidence_fields.
      field ((''note'', ''not shown'') # ?row) name = field ?row name"
    by (simp add: evidence_fields_def field_def)
  have t1: "truthy (Some ''23.71'')" and t2: "\<not> truthy None"
    by (simp_all add: truthy_def)
  have cells: "map (\<lambda>name. if name = ''amount'' then amount_cell (field ?row name)
                     else text_cell (field ?row name)) evidence_fields
      = [''2025-06-30'', ''Strings Ramen'', ''-'', ''$23.71'', ''Food'', ''Chase'']"
    using evidence_table_reads_six_fields [of june_store food_in_june None None _ _ _ "Some ''23.71''"] t1
    by (simp add: row evidence_fields_def field_def text_cell_def truthy_def parseFloat_ramen
          round64_ramen toFixed2_ramen)
  have other: "evidence_cells [(''amount'', ''8.5''), (''memo'', ''not shown'')]
      = [''-'', ''-'', ''-'', ''$8.50'', ''-'', ''-'']"
    by (simp add: evidence_cells_def field_def text_cell_def amount_cell_def truthy_def
          parseFloat_small round64_small toFixed2_small)
  have known: "evidence_cells ((''note'', ''not shown'') # ?row)
       = [''2025-06-30'', ''Strings Ramen'', ''-'', ''$23.71'', ''Food'', ''Chase'']
     \<and> evidence_cells ?row
       = [''2025-06-30'', ''Strings Ramen'', ''-'', ''$23.71'', ''Food'', ''Chase'']
     \<and> text_cell None = ''-''
     \<and> amount_cell (Some ''23.71'') = ''$23.71''"
    using evidence_table_reads_six_fields
        [of june_store food_in_june None None _ "(''note'', ''not shown'') # ?row" ?row "Some ''23.71''"]
      evidence_table_reads_six_fields
        [of june_store food_in_june None None _ ?row ?row None]
      same t1 t2 cells
    by (simp add: parseFloat_ramen round64_ramen toFixed2_ramen)
  have filled: "evidence_table
         \<lparr>final_answer = None, clarifying_question = None, numbers = [],
          evidence = [?row, [(''amount'', ''8.5''), (''memo'', ''not shown'')]], trace = None\<rparr>
       = Some [[''2025-06-30'', ''Strings Ramen'', ''-'', ''$23.71'', ''Food'', ''Chase''],
               [''-'', ''-'', ''-'', ''$8.50'', ''-'', ''-'']]"
    using evidence_table_reads_six_fields
        [of june_store food_in_june None None _ ?row ?row None
            "\<lparr>final_answer = None, clarifying_question = None, numbers = [],
              evidence = [?row, [(''amount'', ''8.5''), (''memo'', ''not shown'')]], trace = None\<rparr>"]
      known other
    by simp
  have empty: "evidence_table
         \<lparr>final_answer = None, clarifying_question = None, numbers = [], evidence = [],
          trace = None\<rparr> = None"
    using evidence_table_reads_six_fields
        [of june_store food_in_june None None _ ?row ?row None
            "\<lparr>final_answer = None, clarifying_question = None, numbers = [], evidence = [],
              trace = None\<rparr>"]
    by simp
  show ?thesis
    using known filled empty by simp
qed

subsection \<open>The amount cell and binary64\<close>

lemma round_half_even_div_100:
  "100 * round_half_even_div a 100 \<le> a + 50 \<and> a \<le> 100 * round_half_even_div a 100 + 50"
proof -
  define f where "f = a div 100"
  define r where "r = a mod 100"
  have a: "a = 100 * f + r"
    by (simp add: f_def r_def)
  have r: "r < 100"
    by (simp add: r_def)
  have m: "round_half_even_div a 100 =
      (if 2 * r < 100 then f else if 100 < 2 * r then f + 1 else if even f then f else f + 1)"
    by (simp add: round_half_even_div_def Let_def f_def r_def)
  show ?thesis
    unfolding m using a r by (auto split: if_splits)
qed

lemma bitlen_le: "n < 2 ^ j \<Longrightarrow> bitlen n \<le> j"
proof (induction j arbitrary: n)
  case 0
  then show ?case by (simp add: bitlen.simps)
next
  case (Suc j)
  have "n div 2 < 2 ^ j"
    using Suc.prems by auto
  then have "bitlen (n div 2) \<le> j"
    by (rule Suc.IH)
  then show ?case
    by (subst bitlen.simps) simp
qed

lemma bitlen_100: "bitlen 100 = 7"
  by (simp add: bitlen.simps)

lemma floor_log2_cents:
  assumes "n < 100 * 2 ^ 46"
  shows "floor_log2 n 100 \<le> 45"
proof -
  have "n < 2 ^ 53"
    using assms by simp
  then have b: "bitlen n \<le> 53"
    by (rule bitlen_le)
  show ?thesis
  proof (cases "bitlen n = 53")
    case True
    then show ?thesis
      using assms by (simp add: floor_log2_def bitlen_100 Let_def)
  next
    case False
    with b have "bitlen n \<le> 52"
      by simp
    then show ?thesis
      by (simp add: floor_log2_def bitlen_100 Let_def)
  qed
qed

lemma hundredths_back:
  assumes "2 * d < 2 ^ j" and "100 * m \<le> n * 2 ^ j + d" and "n * 2 ^ j \<le> 100 * m + d"
  shows "(200 * m + 2 ^ j) div 2 ^ (j + 1) = (n::nat)"
proof -
  have lo: "2 ^ (j + 1) * n \<le> 200 * m + 2 ^ j"
    using assms by (simp add: algebra_simps)
  have hi: "200 * m + 2 ^ j < 2 ^ (j + 1) * Suc n"
    using assms by (simp add: algebra_simps)
  show ?thesis
    using lo hi by (rule div_nat_eqI)
qed

lemma toFixed2_round64_cents:
  assumes "n < 100 * 2 ^ 46"
  shows "toFixed2 (round64 neg n 100) = (if neg \<and> n \<noteq> 0 then ''-'' else []) @ two_decimals n"
proof (cases "n = 0")
  case True
  then show ?thesis
    by (simp add: round64_def toFixed2_def hundredths_def)
next
  case False
  define e where "e = max (floor_log2 n 100 - 52) (- 1074)"
  define j where "j = nat (- e)"
  define m where "m = round_half_even_div (n * 2 ^ j) 100"
  have e7: "e \<le> - 7"
    using floor_log2_cents [OF assms] by (simp add: e_def)
  then have j7: "7 \<le> j" and ej: "e = - int j"
    by (simp_all add: j_def)
  have "(2::nat) ^ 7 \<le> 2 ^ j"
    using j7 by (rule power_increasing) simp
  then have big: "128 \<le> (2::nat) ^ j"
    by simp
  have near: "100 * m \<le> n * 2 ^ j + 50" "n * 2 ^ j \<le> 100 * m + 50"
    using round_half_even_div_100 [of "n * 2 ^ j"] by (simp_all add: m_def)
  have "1 * 128 \<le> n * 2 ^ j"
    using False big by (intro mult_le_mono) simp_all
  then have m1: "m \<noteq> 0"
    using near(2) by auto
  have r: "round64 neg n 100 =
      (if m = 2 ^ 53 then Finite neg (2 ^ 52) (e + 1) else Finite neg m e)"
    using False e7 m1
    by (simp add: round64_def Let_def e_def [symmetric] j_def [symmetric] m_def [symmetric])
  show ?thesis
  proof (cases "m = 2 ^ 53")
    case carry: True
    obtain i where i: "j = Suc i"
      using j7 by (cases j) simp_all
    have i6: "2 * 25 < (2::nat) ^ i"
      using big by (simp add: i)
    have near': "100 * (2 ^ 52) \<le> n * 2 ^ i + 25" "n * 2 ^ i \<le> 100 * (2 ^ 52) + 25"
      using near by (simp_all add: carry i)
    have h: "hundredths (2 ^ 52) (e + 1) = n"
      using hundredths_back [OF i6 near'] j7
      by (simp add: hundredths_def ej i)
    show ?thesis
      using False e7 h carry by (simp add: r toFixed2_def)
  next
    case nocarry: False
    have j2: "2 * 50 < (2::nat) ^ j"
      using big by simp
    have h: "hundredths m e = n"
      using hundredths_back [OF j2 near] j7
      by (simp add: hundredths_def ej)
    show ?thesis
      using False e7 m1 nocarry by (simp add: r toFixed2_def h)
  qed
qed


lemma digit_char_digit:
  assumes "d < 10"
  shows "is_digit (digit_char d)" and "digit_val (digit_char d) = d"
proof -
  have "d \<in> {0, 1, 2, 3, 4, 5, 6, 7, 8, 9}"
    using assms by auto
  then show "is_digit (digit_char d)" and "digit_val (digit_char d) = d"
    by (auto simp: digit_char_def is_digit_def digit_val_def)
qed

lemma show_nat_digits: "\<forall>c \<in> set (show_nat n). is_digit c"
proof (induction n rule: show_nat.induct)
  case (1 n)
  show ?case
  proof (cases "n < 10")
    case True
    then show ?thesis
      by (subst show_nat.simps) (simp add: digit_char_digit)
  next
    case False
    then show ?thesis
      using "1.IH" by (subst show_nat.simps) (simp add: digit_char_digit)
  qed
qed

lemma digits_val_snoc: "digits_val r (ds @ [c]) = r * digits_val r ds + digit_val c"
  by (simp add: digits_val_def)

lemma show_nat_value: "digits_val 10 (show_nat n) = n"
proof (induction n rule: show_nat.induct)
  case (1 n)
  show ?case
  proof (cases "n < 10")
    case True
    then show ?thesis
      by (subst show_nat.simps) (simp add: digits_val_def digit_char_digit)
  next
    case False
    then show ?thesis
      using "1.IH" by (subst show_nat.simps) (simp add: digits_val_snoc digit_char_digit)
  qed
qed

lemma digits_val_leading_zeros: "digits_val 10 (replicate k (CHR ''0'') @ ds) = digits_val 10 ds"
  by (induction k) (simp_all add: digits_val_def digit_val_def)

lemma two_decimals_shape:
  obtains ip fp where "two_decimals n = ip @ CHR ''.'' # fp" and "ip \<noteq> []"
    and "\<forall>c \<in> set ip. is_digit c" and "\<forall>c \<in> set fp. is_digit c" and "length fp = 2"
    and "digits_val 10 (ip @ fp) = n"
proof -
  define padded where "padded = replicate (3 - length (show_nat n)) (CHR ''0'') @ show_nat n"
  define ip where "ip = take (length padded - 2) padded"
  define fp where "fp = drop (length padded - 2) padded"
  have len: "3 \<le> length padded"
    by (simp add: padded_def)
  have digits: "\<forall>c \<in> set padded. is_digit c"
    using show_nat_digits [of n] by (auto simp: padded_def is_digit_def)
  have val: "digits_val 10 padded = n"
    by (simp add: padded_def digits_val_leading_zeros show_nat_value)
  have split: "ip @ fp = padded"
    by (simp add: ip_def fp_def)
  have 1: "two_decimals n = ip @ CHR ''.'' # fp"
    by (simp add: two_decimals_def Let_def padded_def ip_def fp_def)
  have 2: "ip \<noteq> []"
    using len by (auto simp: ip_def)
  have 3: "\<forall>c \<in> set ip. is_digit c"
    using digits by (auto simp: ip_def dest: in_set_takeD)
  have 4: "\<forall>c \<in> set fp. is_digit c"
    using digits by (auto simp: fp_def dest: in_set_dropD)
  have 5: "length fp = 2"
    using len by (simp add: fp_def)
  have 6: "digits_val 10 (ip @ fp) = n"
    by (simp add: split val)
  show thesis
    using that [OF 1 2 3 4 5 6] .
qed

lemma parseFloat_decimal_text:
  assumes "ip \<noteq> []" and "\<forall>c \<in> set ip. is_digit c" and "\<forall>c \<in> set fp. is_digit c"
    and "length fp = 2"
  shows "parseFloat ((if neg then ''-'' else []) @ ip @ CHR ''.'' # fp)
           = round64 neg (digits_val 10 (ip @ fp)) 100"
proof -
  define t where "t = ip @ CHR ''.'' # fp"
  obtain c cs where ip: "ip = c # cs"
    using assms(1) by (cases ip) simp_all
  have c: "is_digit c"
    using assms(2) by (simp add: ip)
  then have c1: "\<not> is_js_space c" and c2: "c \<noteq> CHR ''-''" and c3: "c \<noteq> CHR ''+''"
    and c4: "c \<noteq> CHR ''I''"
    by (auto simp: is_digit_def is_js_space_def)
  have minus: "\<not> is_js_space (CHR ''-'')"
    by (simp add: is_js_space_def)
  have dot: "\<not> is_digit (CHR ''.'')"
    by (simp add: is_digit_def)
  have s: "strip_sign (dropWhile is_js_space ((if neg then ''-'' else []) @ t)) = (neg, t)"
    using c1 c2 c3 minus by (simp add: t_def ip)
  have inf: "take 8 t \<noteq> ''Infinity''"
    using c4 by (simp add: t_def ip)
  have tw: "takeWhile is_digit t = ip"
    using assms(2) dot by (simp add: t_def takeWhile_append2)
  have dw: "dropWhile is_digit t = CHR ''.'' # fp"
    using assms(2) dot by (simp add: t_def dropWhile_append2)
  have tf: "takeWhile is_digit fp = fp" and df: "dropWhile is_digit fp = []"
    using assms(3) by simp_all
  have "parseFloat ((if neg then ''-'' else []) @ t) = round64 neg (digits_val 10 (ip @ fp)) 100"
    using assms(1,4) by (simp add: parseFloat_def s inf tw dw tf df exponent_part_def)
  then show ?thesis
    by (simp only: t_def)
qed

text \<open>
  Claim C7, as stated: no binary floating point is applied to an amount, also where the
  evidence amounts are rendered, so the amount shown is the exact decimal amount. It fails:
  the amount cell passes the text of the amount through parseFloat, a binary64 value, and
  prints that value with \<^verbatim>\<open>toFixed(2)\<close>. The exact decimal \<^verbatim>\<open>9007199254740993.00\<close> is
  shown as \<^verbatim>\<open>$9007199254740992.00\<close>.
\<close>

theorem amount_cell_goes_through_binary64:
  "show_decimal 900719925474099300 = ''9007199254740993.00''
   \<and> parseFloat ''9007199254740993.00'' = Finite False 4503599627370496 1
   \<and> amount_cell (Some (show_decimal 900719925474099300)) = ''$9007199254740992.00''"
  by (simp add: show_decimal_large amount_cell_def truthy_def parseFloat_large round64_large
        toFixed2_large)

text \<open>
  Claim C7, amended: the amount cell of the evidence table is where the web client
  applies binary floating point to an amount: for a non-empty text it shows the dollar
  sign and \<^verbatim>\<open>parseFloat(amount).toFixed(2)\<close>. For every decimal amount with two
  places whose magnitude is below \<open>2^46\<close> (its hundredths below \<open>100 * 2^46\<close>), the cell
  shows exactly the decimal text of the amount after the dollar sign.
\<close>

theorem amount_cell_exact_below_2_46:
  assumes "\<bar>c\<bar> < 100 * 2 ^ 46" and "a \<noteq> []"
  shows "amount_cell (Some a) = ''$'' @ toFixed2 (parseFloat a)
         \<and> amount_cell (Some (show_decimal c)) = ''$'' @ show_decimal c"
proof -
  have direct: "amount_cell (Some a) = ''$'' @ toFixed2 (parseFloat a)"
    using assms(2) by (simp add: amount_cell_def truthy_def)
  obtain ip fp where shape: "two_decimals (nat \<bar>c\<bar>) = ip @ CHR ''.'' # fp" "ip \<noteq> []"
    "\<forall>c \<in> set ip. is_digit c" "\<forall>c \<in> set fp. is_digit c" "length fp = 2"
    "digits_val 10 (ip @ fp) = nat \<bar>c\<bar>"
    by (rule two_decimals_shape)
  have shown: "show_decimal c = (if c < 0 then ''-'' else []) @ ip @ CHR ''.'' # fp"
    by (simp add: show_decimal_def shape(1))
  have parsed: "parseFloat (show_decimal c) = round64 (c < 0) (nat \<bar>c\<bar>) 100"
    unfolding shown using parseFloat_decimal_text [OF shape(2-5), of "c < 0"] by (simp add: shape(6))
  have small: "nat \<bar>c\<bar> < 100 * 2 ^ 46"
    using assms(1) by simp
  have printed: "toFixed2 (round64 (c < 0) (nat \<bar>c\<bar>) 100) = show_decimal c"
    using toFixed2_round64_cents [OF small, of "c < 0"] by (auto simp: show_decimal_def)
  have "show_decimal c \<noteq> []"
    by (simp add: shown)
  then show ?thesis
    using direct by (simp add: amount_cell_def truthy_def parsed printed)
qed

theorem amount_cell_exact_below_2_46_witness:
  "amount_cell (Some ''23.71'') = ''$23.71'' \<and> amount_cell (Some ''-0.05'') = ''$-0.05''"
proof -
  have a: "show_decimal 2371 = ''23.71''" and b: "show_decimal (- 5) = ''-0.05''"
    by (simp_all add: show_decimal_def two_decimals_def show_nat.simps digit_char_def Let_def)
  have x: "amount_cell (Some (show_decimal 2371)) = ''$'' @ show_decimal 2371"
    using amount_cell_exact_below_2_46 [of 2371 "''23.71''"] by simp
  have y: "amount_cell (Some (show_decimal (- 5))) = ''$'' @ show_decimal (- 5)"
    using amount_cell_exact_below_2_46 [of "- 5" "''-0.05''"] by simp
  show ?thesis
    using x y by (simp add: a b)
qed

end
